theory Spec2Isabelle
  imports Main "HOL-Library.Word"
begin

unbundle bit_operations_syntax

section \<open>The KCIDB URL cache: a model of kcidb/cache/__init__.py and of its two cloud functions\<close>

text \<open>
  The model follows the Python source statement by statement. Everything the code does
  beyond returning a value is explicit: the bucket, the requests sent to the origin and the
  log records live in a \<open>world\<close> record that every operation takes and returns, and an
  exception that leaves a function is the \<open>Inl\<close> side of its result.

  A Python \<open>str\<close> is represented by the bytes of its UTF-8 encoding, one \<open>char\<close> per byte.
  Every \<open>str\<close> the two cloud functions hand to the cache has such an encoding: the lines
  of a message decoded from UTF-8, and the result of \<open>unquote\<close>, which replaces what it
  cannot decode. In this representation \<open>url.encode()\<close> is a change of type only, and
  \<open>endswith\<close>, \<open>rsplit('/')\<close>, emptiness and f-string concatenation act on the bytes as
  they act on the code points.
\<close>

type_synonym byte = "8 word"
type_synonym u32 = "32 word"

subsection \<open>hashlib.sha256, after FIPS 180-4\<close>

definition rotr :: "nat \<Rightarrow> u32 \<Rightarrow> u32" where
  "rotr n x = (drop_bit n x) OR (push_bit (32 - n) x)"

definition Ch :: "u32 \<Rightarrow> u32 \<Rightarrow> u32 \<Rightarrow> u32" where
  "Ch x y z = (x AND y) XOR (NOT x AND z)"

definition Maj :: "u32 \<Rightarrow> u32 \<Rightarrow> u32 \<Rightarrow> u32" where
  "Maj x y z = (x AND y) XOR (x AND z) XOR (y AND z)"

definition bsig0 :: "u32 \<Rightarrow> u32" where
  "bsig0 x = rotr 2 x XOR rotr 13 x XOR rotr 22 x"

definition bsig1 :: "u32 \<Rightarrow> u32" where
  "bsig1 x = rotr 6 x XOR rotr 11 x XOR rotr 25 x"

definition ssig0 :: "u32 \<Rightarrow> u32" where
  "ssig0 x = rotr 7 x XOR rotr 18 x XOR drop_bit 3 x"

definition ssig1 :: "u32 \<Rightarrow> u32" where
  "ssig1 x = rotr 17 x XOR rotr 19 x XOR drop_bit 10 x"

definition sha_K :: "u32 list" where
  "sha_K = [
   0x428A2F98, 0x71374491, 0xB5C0FBCF, 0xE9B5DBA5, 0x3956C25B, 0x59F111F1, 0x923F82A4, 0xAB1C5ED5,
   0xD807AA98, 0x12835B01, 0x243185BE, 0x550C7DC3, 0x72BE5D74, 0x80DEB1FE, 0x9BDC06A7, 0xC19BF174,
   0xE49B69C1, 0xEFBE4786, 0x0FC19DC6, 0x240CA1CC, 0x2DE92C6F, 0x4A7484AA, 0x5CB0A9DC, 0x76F988DA,
   0x983E5152, 0xA831C66D, 0xB00327C8, 0xBF597FC7, 0xC6E00BF3, 0xD5A79147, 0x06CA6351, 0x14292967,
   0x27B70A85, 0x2E1B2138, 0x4D2C6DFC, 0x53380D13, 0x650A7354, 0x766A0ABB, 0x81C2C92E, 0x92722C85,
   0xA2BFE8A1, 0xA81A664B, 0xC24B8B70, 0xC76C51A3, 0xD192E819, 0xD6990624, 0xF40E3585, 0x106AA070,
   0x19A4C116, 0x1E376C08, 0x2748774C, 0x34B0BCB5, 0x391C0CB3, 0x4ED8AA4A, 0x5B9CCA4F, 0x682E6FF3,
   0x748F82EE, 0x78A5636F, 0x84C87814, 0x8CC70208, 0x90BEFFFA, 0xA4506CEB, 0xBEF9A3F7, 0xC67178F2]"

definition sha_H0 :: "u32 list" where
  "sha_H0 = [0x6A09E667, 0xBB67AE85, 0x3C6EF372, 0xA54FF53A,
             0x510E527F, 0x9B05688C, 0x1F83D9AB, 0x5BE0CD19]"

definition be32 :: "byte list \<Rightarrow> u32" where
  "be32 bs = foldl (\<lambda>acc b. push_bit 8 acc OR ucast b) 0 bs"

definition u32_bytes :: "u32 \<Rightarrow> byte list" where
  "u32_bytes x = [ucast (drop_bit 24 x), ucast (drop_bit 16 x), ucast (drop_bit 8 x), ucast x]"

fun chunks :: "nat \<Rightarrow> nat \<Rightarrow> 'a list \<Rightarrow> 'a list list" where
  "chunks 0 k xs = []"
| "chunks (Suc n) k xs = take k xs # chunks n k (drop k xs)"

definition sha_pad :: "byte list \<Rightarrow> byte list" where
  "sha_pad m = (let l = length m; z = (55 + 64 - l mod 64) mod 64 in
     m @ [0x80] @ replicate z 0 @
     map (\<lambda>i. ucast (drop_bit (8 * i) (of_nat (8 * l) :: 64 word))) [7, 6, 5, 4, 3, 2, 1, 0])"

fun schedule :: "nat \<Rightarrow> u32 list \<Rightarrow> u32 list" where
  "schedule 0 ws = []"
| "schedule (Suc n) ws =
     (let x = ssig1 (ws ! 14) + ws ! 9 + ssig0 (ws ! 1) + ws ! 0
      in x # schedule n (tl ws @ [x]))"

definition sha_round :: "u32 list \<Rightarrow> u32 \<times> u32 \<Rightarrow> u32 list" where
  "sha_round s kw = (case s of [a, b, c, d, e, f, g, h] \<Rightarrow>
     (let t1 = h + bsig1 e + Ch e f g + fst kw + snd kw;
          t2 = bsig0 a + Maj a b c
      in [t1 + t2, a, b, c, d + t1, e, f, g]) | _ \<Rightarrow> s)"

definition sha_block :: "u32 list \<Rightarrow> byte list \<Rightarrow> u32 list" where
  "sha_block hs blk = (let w16 = map be32 (chunks 16 4 blk);
        ws = w16 @ schedule 48 w16
    in map2 (+) hs (foldl sha_round hs (zip sha_K ws)))"

definition sha256 :: "byte list \<Rightarrow> byte list" where
  "sha256 m = (let p = sha_pad m
     in concat (map u32_bytes (foldl sha_block sha_H0 (chunks (length p div 64) 64 p))))"

text \<open>\<open>hexdigest()\<close>: two lowercase hexadecimal characters for each byte of the digest.\<close>

definition hexdigit :: "nat \<Rightarrow> char" where
  "hexdigit n = ''0123456789abcdef'' ! n"

definition hex_byte :: "byte \<Rightarrow> string" where
  "hex_byte b = [hexdigit (unat b div 16), hexdigit (unat b mod 16)]"

definition hexdigest :: "byte list \<Rightarrow> string" where
  "hexdigest bs = concat (map hex_byte bs)"

subsection \<open>Python values, exceptions and library routines\<close>

text \<open>\<open>str.encode()\<close> on the UTF-8 representation of a \<open>str\<close>.\<close>

definition encode :: "string \<Rightarrow> byte list" where
  "encode s = map of_char s"

definition endswith :: "string \<Rightarrow> string \<Rightarrow> bool" where
  "endswith s suffix =
     (length suffix \<le> length s \<and> drop (length s - length suffix) s = suffix)"

text \<open>\<open>path.rsplit('/', 1)[-1]\<close>: what follows the last slash, the whole string if there is none.\<close>

fun rsplit_last :: "string \<Rightarrow> string" where
  "rsplit_last [] = []"
| "rsplit_last (c # cs) = (if CHR ''/'' \<in> set cs then rsplit_last cs
                           else if c = CHR ''/'' then cs else c # cs)"

text \<open>The exceptions that the modelled code can meet.\<close>

datatype exn =
    AssertionError
  | KeyError
  | ValueError
  | UnicodeDecodeError
  | RequestException
  | LibraryError string

text \<open>
  The values \<open>Client.map\<close> inspects with \<open>isinstance\<close>: a \<open>str\<close>, \<open>None\<close>, a
  \<open>datetime.timedelta\<close> (in microseconds), and representatives of the other types.
\<close>

datatype pyval =
    PyStr string
  | PyNone
  | PyTimedelta int
  | PyInt int
  | PyBytes "byte list"

text \<open>
  Library routines whose code is not part of the repository are parameters of the model:
  \<open>int(str)\<close> (\<open>None\<close> where it raises ValueError), \<open>urllib.parse.unquote\<close>,
  the \<open>path\<close> component of \<open>urllib.parse.urlparse\<close>, \<open>email.header.Header(s, "utf-8").encode()\<close>,
  \<open>base64.b64decode\<close> (\<open>None\<close> where it raises), \<open>bytes.decode()\<close> (\<open>None\<close> where
  the bytes are not UTF-8) and \<open>str.splitlines()\<close>.
\<close>

record pylib =
  py_int :: "string \<Rightarrow> int option"
  unquote :: "string \<Rightarrow> string"
  urlparse_path :: "string \<Rightarrow> string"
  header_encode :: "string \<Rightarrow> string"
  b64decode :: "string \<Rightarrow> byte list option"
  utf8_decode :: "byte list \<Rightarrow> string option"
  splitlines :: "string \<Rightarrow> string list"

subsection \<open>The world outside: bucket, origin servers, credentials\<close>

record response =
  status_code :: int
  resp_headers :: "string \<rightharpoonup> string"
  resp_content :: "byte list"
  resp_url :: string

record blob =
  blob_contents :: "byte list"
  content_type :: string
  content_disposition :: string

record credentials =
  token :: "string option"
  service_account_email :: string
  expired :: bool

record sign_request =
  sign_object :: string
  sign_version :: string
  sign_method :: string
  sign_expiration :: pyval
  sign_email :: string
  sign_access_token :: "string option"

datatype level = Debug | Info | Warning

datatype event =
    Exists string
  | is_Head: Head string
  | is_Get: Get string
  | is_Upload: Upload string
  | AuthDefault
  | Refresh
  | Sign sign_request
  | Log level string

record client =
  bucket_name :: string
  max_store_size :: int

text \<open>
  The state: the objects of the bucket, the trace of requests and log records in the order
  they were issued, the arguments of the calls of \<open>Client.store\<close> so far (an observation
  added by the model, the code keeps no such list), and the module variable
  \<open>_CACHE_CLIENT\<close> of main.py.
\<close>

record world =
  bucket :: "string \<rightharpoonup> blob"
  trace :: "event list"
  store_calls :: "string list"
  cache_client_var :: "client option"

text \<open>
  The behaviour of the collaborators: the reply of the origin to HEAD and to GET (an
  exception of \<open>requests\<close> or any other, or a response), the failures of the object store
  on \<open>blob.exists()\<close> and on \<open>blob.upload_from_string()\<close>, and the credential provider
  (\<open>google.auth.default()\<close>, \<open>credentials.refresh\<close>, \<open>blob.generate_signed_url\<close>).
\<close>

record env =
  head_reply :: "string \<Rightarrow> exn + response"
  get_reply :: "string \<Rightarrow> exn + response"
  exists_fault :: "string \<Rightarrow> exn option"
  upload_fault :: "string \<Rightarrow> exn option"
  auth_default :: "exn + credentials"
  refresh_reply :: "credentials \<Rightarrow> exn + credentials"
  signed_url :: "sign_request \<Rightarrow> exn + string"

definition emit :: "event \<Rightarrow> world \<Rightarrow> world" where
  "emit e w = w\<lparr>trace := trace w @ [e]\<rparr>"

text \<open>What a run from \<open>w\<close> to \<open>w'\<close> added to the trace.\<close>

definition new_events :: "world \<Rightarrow> world \<Rightarrow> event list" where
  "new_events w w' = drop (length (trace w)) (trace w')"

definition blob_exists :: "env \<Rightarrow> string \<Rightarrow> world \<Rightarrow> (exn + bool) \<times> world" where
  "blob_exists en name w =
     (case exists_fault en name of
        Some e \<Rightarrow> (Inl e, emit (Exists name) w)
      | None \<Rightarrow> (Inr (bucket w name \<noteq> None), emit (Exists name) w))"

definition requests_head :: "env \<Rightarrow> string \<Rightarrow> world \<Rightarrow> (exn + response) \<times> world" where
  "requests_head en u w = (head_reply en u, emit (Head u) w)"

definition requests_get :: "env \<Rightarrow> string \<Rightarrow> world \<Rightarrow> (exn + response) \<times> world" where
  "requests_get en u w = (get_reply en u, emit (Get u) w)"

text \<open>An \<open>Upload\<close> event stands for an object written: a failed upload leaves none.\<close>

definition upload_from_string :: "env \<Rightarrow> string \<Rightarrow> blob \<Rightarrow> world \<Rightarrow> (exn + unit) \<times> world" where
  "upload_from_string en name b w =
     (case upload_fault en name of
        Some e \<Rightarrow> (Inl e, w)
      | None \<Rightarrow> (Inr (), emit (Upload name) (w\<lparr>bucket := (bucket w)(name \<mapsto> b)\<rparr>)))"

subsection \<open>kcidb.cache.Client\<close>

definition dquote :: char where
  "dquote = CHR 0x22"

definition extract_content_disposition :: "pylib \<Rightarrow> response \<Rightarrow> string" where
  "extract_content_disposition lib r =
     (case resp_headers r ''Content-Disposition'' of
        Some cd \<Rightarrow> cd
      | None \<Rightarrow>
          (let original_filename = rsplit_last (urlparse_path lib (resp_url r)) in
           if original_filename \<noteq> []
           then ''attachment; filename='' @ [dquote] @ header_encode lib original_filename @ [dquote]
           else ''attachment''))"

definition format_object_name :: "string \<Rightarrow> string" where
  "format_object_name u = hexdigest (sha256 (encode u))"

text \<open>
  The body of the \<open>try\<close> statement of \<open>Client.store\<close>, from the HEAD request on. The
  fall-through to the warning after the \<open>if\<close> is the last branch of each status test.
\<close>

definition store_try :: "pylib \<Rightarrow> client \<Rightarrow> env \<Rightarrow> string \<Rightarrow> string \<Rightarrow> world \<Rightarrow> (exn + unit) \<times> world" where
  "store_try lib c en u object_name w =
     (case requests_head en u w of
        (Inl e, w1) \<Rightarrow> (Inl e, w1)
      | (Inr r, w1) \<Rightarrow>
          if status_code r = 200 then
            (case resp_headers r ''Content-Type'' of
               None \<Rightarrow> (Inl KeyError, w1)
             | Some ctype \<Rightarrow>
                 (case resp_headers r ''Content-Length'' of
                    None \<Rightarrow> (Inr (), emit (Log Warning u) w1)
                  | Some cl \<Rightarrow>
                      (case py_int lib cl of
                         None \<Rightarrow> (Inl ValueError, w1)
                       | Some content_length \<Rightarrow>
                           if content_length > max_store_size c
                           then (Inr (), emit (Log Warning u) w1)
                           else
                             (case requests_get en u w1 of
                                (Inl e, w2) \<Rightarrow> (Inl e, w2)
                              | (Inr r2, w2) \<Rightarrow>
                                  if status_code r2 = 200 then
                                    (case upload_from_string en object_name
                                            \<lparr>blob_contents = resp_content r2,
                                             content_type = ctype,
                                             content_disposition =
                                               extract_content_disposition lib r2\<rparr> w2 of
                                       (Inl e, w3) \<Rightarrow> (Inl e, w3)
                                     | (Inr _, w3) \<Rightarrow> (Inr (), emit (Log Info u) w3))
                                  else (Inr (), emit (Log Warning u) w2)))))
          else (Inr (), emit (Log Warning u) w1))"

text \<open>\<open>except requests.exceptions.RequestException\<close>: that exception alone is caught and logged.\<close>

definition except_RequestException :: "string \<Rightarrow> (exn + unit) \<times> world \<Rightarrow> (exn + unit) \<times> world" where
  "except_RequestException u rw =
     (case rw of
        (Inl RequestException, w) \<Rightarrow> (Inr (), emit (Log Warning u) w)
      | _ \<Rightarrow> rw)"

definition store :: "pylib \<Rightarrow> client \<Rightarrow> env \<Rightarrow> string \<Rightarrow> world \<Rightarrow> (exn + unit) \<times> world" where
  "store lib c en u w0 =
     (let w = w0\<lparr>store_calls := store_calls w0 @ [u]\<rparr>;
          object_name = format_object_name u in
      if \<not> endswith object_name ''00'' then (Inr (), w)
      else
        (case blob_exists en object_name w of
           (Inl e, w1) \<Rightarrow> (Inl e, w1)
         | (Inr True, w1) \<Rightarrow> (Inr (), emit (Log Debug u) w1)
         | (Inr False, w1) \<Rightarrow>
             except_RequestException u (store_try lib c en u object_name w1)))"

definition format_public_url :: "client \<Rightarrow> string \<Rightarrow> string" where
  "format_public_url c u =
     ''https://storage.googleapis.com/'' @ bucket_name c @ ''/'' @ format_object_name u"

fun is_timedelta :: "pyval \<Rightarrow> bool" where
  "is_timedelta (PyTimedelta d) = True"
| "is_timedelta _ = False"

text \<open>The signed branch of \<open>Client.map\<close>, from \<open>google.auth.default()\<close> on.\<close>

definition map_signed :: "env \<Rightarrow> string \<Rightarrow> pyval \<Rightarrow> world \<Rightarrow> (exn + string option) \<times> world" where
  "map_signed en object_name ttl w =
     (case auth_default en of
        Inl e \<Rightarrow> (Inl e, emit AuthDefault w)
      | Inr cr \<Rightarrow>
          (let w1 = emit AuthDefault w;
               refreshed = (if token cr = None
                            then (refresh_reply en cr, emit Refresh w1)
                            else (Inr cr, w1)) in
           case refreshed of
             (Inl e, w2) \<Rightarrow> (Inl e, w2)
           | (Inr cr2, w2) \<Rightarrow>
               (let req = \<lparr>sign_object = object_name, sign_version = ''v4'',
                           sign_method = ''GET'', sign_expiration = ttl,
                           sign_email = service_account_email cr2,
                           sign_access_token = token cr2\<rparr> in
                case signed_url en req of
                  Inl e \<Rightarrow> (Inl e, emit (Sign req) w2)
                | Inr a \<Rightarrow> (Inr (Some a), emit (Sign req) w2))))"

text \<open>\<open>Client.map\<close> after its two \<open>assert\<close> statements.\<close>

definition map_body :: "client \<Rightarrow> env \<Rightarrow> string \<Rightarrow> pyval \<Rightarrow> world \<Rightarrow> (exn + string option) \<times> world" where
  "map_body c en u ttl w =
     (let object_name = format_object_name u in
      case blob_exists en object_name w of
        (Inl e, w1) \<Rightarrow> (Inl e, w1)
      | (Inr True, w1) \<Rightarrow>
          if ttl = PyNone then (Inr (Some (format_public_url c u)), w1)
          else map_signed en object_name ttl w1
      | (Inr False, w1) \<Rightarrow> (Inr None, w1))"

text \<open>
  \<open>assert isinstance(url, str)\<close>, then
  \<open>assert ttl is None or isinstance(ttl, datetime.timedelta)\<close>, then the body.
\<close>

definition map_url :: "client \<Rightarrow> env \<Rightarrow> pyval \<Rightarrow> pyval \<Rightarrow> world \<Rightarrow> (exn + string option) \<times> world" where
  "map_url c en url ttl w =
     (case url of
        PyStr u \<Rightarrow>
          if \<not> (ttl = PyNone \<or> is_timedelta ttl) then (Inl AssertionError, w)
          else map_body c en u ttl w
      | _ \<Rightarrow> (Inl AssertionError, w))"

subsection \<open>The cloud functions of main.py\<close>

definition get_cache_client :: "string \<Rightarrow> world \<Rightarrow> client \<times> world" where
  "get_cache_client CACHE_BUCKET_NAME w =
     (case cache_client_var w of
        None \<Rightarrow>
          (let c = \<lparr>bucket_name = CACHE_BUCKET_NAME, max_store_size = 5 * 1024 * 1024\<rparr>
           in (c, w\<lparr>cache_client_var := Some c\<rparr>))
      | Some c \<Rightarrow> (c, w))"



definition CACHE_REDIRECT_TTL :: pyval where
  "CACHE_REDIRECT_TTL = PyTimedelta (10 * 1000000)"

record request =
  req_method :: string
  query_string :: "byte list"

text \<open>\<open>bytes.decode("ascii")\<close>: every byte below 128, or UnicodeDecodeError.\<close>

definition decode_ascii :: "byte list \<Rightarrow> string option" where
  "decode_ascii bs = (if \<forall>b \<in> set bs. b < 128 then Some (map (\<lambda>b. char_of (unat b)) bs) else None)"

text \<open>The reply of the HTTP function: body, status code and headers.\<close>

type_synonym reply = "string \<times> int \<times> (string \<times> string) list"

definition kcidb_cache_redirect ::
  "pylib \<Rightarrow> string \<Rightarrow> env \<Rightarrow> request \<Rightarrow> world \<Rightarrow> (exn + reply) \<times> world" where
  "kcidb_cache_redirect lib CACHE_BUCKET_NAME en rq w =
     (if req_method rq = ''GET'' then
        (case decode_ascii (query_string rq) of
           None \<Rightarrow> (Inl UnicodeDecodeError, w)
         | Some qs \<Rightarrow>
             (let url_to_fetch = unquote lib qs;
                  w1 = emit (Log Debug url_to_fetch) w in
              if url_to_fetch = [] then
                (Inr (''Provide a valid URL to query from the caching system.'', 400, []), w1)
              else
                (let (cache_client, w2) = get_cache_client CACHE_BUCKET_NAME w1 in
                 case map_url cache_client en (PyStr url_to_fetch) CACHE_REDIRECT_TTL w2 of
                   (Inl e, w3) \<Rightarrow> (Inl e, w3)
                 | (Inr cache, w3) \<Rightarrow>
                     (case cache of
                        Some a \<Rightarrow>
                          if a \<noteq> [] then
                            (Inr ('''', 302, [(''Location'', a)]), emit (Log Info a) w3)
                          else
                            (Inr ('''', 302, [(''Location'', url_to_fetch)]),
                             emit (Log Info url_to_fetch) w3)
                      | None \<Rightarrow>
                          (Inr ('''', 302, [(''Location'', url_to_fetch)]),
                           emit (Log Info url_to_fetch) w3)))))
      else (Inr (''Method not allowed.'', 405, [(''Allow'', ''GET'')]), w))"

subsection \<open>Scenarios\<close>

text \<open>
  Concrete collaborators for the examples below. The SHA-256 digest of \<open>sampled_url\<close>
  ends in the byte 00, that of \<open>unsampled_url\<close> does not. \<open>demo_lib\<close> gives the library
  routines on the inputs the examples use, with the values Python computes there.
\<close>

definition sampled_url :: string where
  "sampled_url = ''https://example.com/log151.txt''"

definition unsampled_url :: string where
  "unsampled_url = ''https://example.com/''"

definition demo_message :: string where
  "demo_message = sampled_url @ [CHR 0x0A, CHR 0x0A] @ ''https://example.com/next.txt'' @ [CHR 0x0A]"

definition demo_lines :: "string list" where
  "demo_lines = [sampled_url, [], ''https://example.com/next.txt'']"

definition demo_lib :: pylib where
  "demo_lib = \<lparr>
     py_int = (\<lambda>s. if s = ''12'' then Some 12
                    else if s = ''6000000'' then Some 6000000 else None),
     unquote = (\<lambda>s. if s = ''https%3A//example.com/log151.txt'' then sampled_url else s),
     urlparse_path = (\<lambda>s. if s = sampled_url then ''/log151.txt'' else []),
     header_encode = (\<lambda>s. if s = ''log151.txt'' then ''=?utf-8?q?log151=2Etxt?='' else s),
     b64decode = (\<lambda>s. if s = ''aHR0cHM6Ly9leGFtcGxlLmNvbS9sb2cxNTEudHh0CgpodHRwczovL2V4YW1wbGUuY29tL25leHQudHh0Cg==''
                       then Some (encode demo_message) else None),
     utf8_decode = (\<lambda>bs. if bs = encode demo_message then Some demo_message else None),
     splitlines = (\<lambda>s. if s = demo_message then demo_lines else [s]) \<rparr>"


definition demo_client :: client where
  "demo_client = \<lparr>bucket_name = ''kcidb-cache'', max_store_size = 5 * 1024 * 1024\<rparr>"

definition head_ok :: "string \<Rightarrow> response" where
  "head_ok u = \<lparr>status_code = 200,
     resp_headers = [''Content-Type'' \<mapsto> ''text/plain'', ''Content-Length'' \<mapsto> ''12''],
     resp_content = [], resp_url = u\<rparr>"

definition get_ok :: "string \<Rightarrow> response" where
  "get_ok u = \<lparr>status_code = 200,
     resp_headers = [''Content-Type'' \<mapsto> ''text/plain'', ''Content-Length'' \<mapsto> ''12''],
     resp_content = encode ''hello world!'', resp_url = u\<rparr>"

definition fresh_credentials :: credentials where
  "fresh_credentials = \<lparr>token = None, service_account_email = ''default'', expired = False\<rparr>"

definition stale_credentials :: credentials where
  "stale_credentials =
     \<lparr>token = Some ''old-token'', service_account_email = ''cache@example.iam'', expired = True\<rparr>"

definition good_env :: env where
  "good_env = \<lparr>
     head_reply = (\<lambda>u. Inr (head_ok u)),
     get_reply = (\<lambda>u. Inr (get_ok u)),
     exists_fault = (\<lambda>n. None),
     upload_fault = (\<lambda>n. None),
     auth_default = Inr fresh_credentials,
     refresh_reply = (\<lambda>cr. Inr (cr\<lparr>token := Some ''new-token'',
                                       service_account_email := ''cache@example.iam'',
                                       expired := False\<rparr>)),
     signed_url = (\<lambda>rq. Inr (''https://storage.googleapis.com/kcidb-cache/'' @ sign_object rq
                               @ ''?X-Goog-Signature=s'')) \<rparr>"

definition empty_world :: world where
  "empty_world = \<lparr>bucket = Map.empty, trace = [], store_calls = [], cache_client_var = None\<rparr>"

definition cached_world :: world where
  "cached_world = empty_world\<lparr>bucket := [format_object_name sampled_url \<mapsto>
     \<lparr>blob_contents = encode ''hello world!'', content_type = ''text/plain'',
      content_disposition = ''attachment''\<rparr>]\<rparr>"

text \<open>More collaborators: a large file, an object store that is down or read-only, replies to HEAD without
  Content-Type or with a Content-Length that is no number, credentials that are expired, and three requests.\<close>

definition big_head :: "string \<Rightarrow> response" where
  "big_head u = \<lparr>status_code = 200,
     resp_headers = [''Content-Type'' \<mapsto> ''text/plain'', ''Content-Length'' \<mapsto> ''6000000''],
     resp_content = [], resp_url = u\<rparr>"

definition big_env :: env where
  "big_env = good_env\<lparr>head_reply := \<lambda>u. Inr (big_head u)\<rparr>"







definition stale_env :: env where
  "stale_env = good_env\<lparr>auth_default := Inr stale_credentials\<rparr>"

definition demo_request :: request where
  "demo_request = \<lparr>req_method = ''GET'',
                    query_string = encode ''https%3A//example.com/log151.txt''\<rparr>"

definition empty_request :: request where
  "empty_request = \<lparr>req_method = ''GET'', query_string = []\<rparr>"

definition post_request :: request where
  "post_request = \<lparr>req_method = ''POST'', query_string = []\<rparr>"

definition latin_request :: request where
  "latin_request = \<lparr>req_method = ''GET'', query_string = [0xFF]\<rparr>"

subsection \<open>Well-behaved collaborators\<close>


section \<open>Properties\<close>

subsection \<open>The digest and the sampling test\<close>

lemma length_sha_round: "length s = 8 \<Longrightarrow> length (sha_round s kw) = 8"
  by (auto simp: sha_round_def Let_def split: list.splits)

lemma length_foldl_sha_round: "length s = 8 \<Longrightarrow> length (foldl sha_round s kws) = 8"
  by (induction kws arbitrary: s) (simp_all add: length_sha_round)

lemma length_sha_block: "length hs = 8 \<Longrightarrow> length (sha_block hs blk) = 8"
  by (simp add: sha_block_def Let_def length_foldl_sha_round)

lemma length_foldl_sha_block: "length hs = 8 \<Longrightarrow> length (foldl sha_block hs blks) = 8"
  by (induction blks arbitrary: hs) (simp_all add: length_sha_block)

lemma length_concat_u32_bytes: "length (concat (map u32_bytes hs)) = 4 * length hs"
  by (induction hs) (simp_all add: u32_bytes_def)

lemma length_sha256: "length (sha256 m) = 32"
  by (simp add: sha256_def Let_def length_concat_u32_bytes length_foldl_sha_block sha_H0_def)

lemma hexdigit_zero: "n < 16 \<Longrightarrow> hexdigit n = CHR ''0'' \<longleftrightarrow> n = 0"
proof -
  assume "n < 16"
  then have "n \<in> set [0..<16]" by simp
  moreover have "\<forall>k \<in> set [0..<16]. (hexdigit k = CHR ''0'') = (k = 0)" by code_simp
  ultimately show ?thesis by blast
qed

lemma hex_byte_zero: "hex_byte b = ''00'' \<longleftrightarrow> b = 0"
proof -
  have lt: "unat b < 256" using unsigned_less [of b, where ?'a = nat] by simp
  then have d: "unat b div 16 < 16" and m: "unat b mod 16 < 16" by auto
  have "hex_byte b = ''00'' \<longleftrightarrow> unat b div 16 = 0 \<and> unat b mod 16 = 0"
    using hexdigit_zero [OF d] hexdigit_zero [OF m] by (simp add: hex_byte_def)
  also have "\<dots> \<longleftrightarrow> unat b = 0" by auto
  also have "\<dots> \<longleftrightarrow> b = 0" by (simp add: unat_eq_0)
  finally show ?thesis .
qed

lemma length_hex_byte: "length (hex_byte b) = 2"
  by (simp add: hex_byte_def)

lemma hexdigest_snoc: "hexdigest (bs @ [b]) = hexdigest bs @ hex_byte b"
  by (simp add: hexdigest_def)

lemma endswith_hexdigest:
  "bs \<noteq> [] \<Longrightarrow> endswith (hexdigest bs) ''00'' \<longleftrightarrow> last bs = 0"
proof -
  assume "bs \<noteq> []"
  then obtain cs b where bs: "bs = cs @ [b]" by (metis rev_exhaust)
  have "endswith (hexdigest cs @ hex_byte b) ''00'' \<longleftrightarrow> hex_byte b = ''00''"
    by (simp add: endswith_def length_hex_byte)
  then show ?thesis by (simp add: bs hexdigest_snoc hex_byte_zero)
qed

subsection \<open>The steps of store\<close>

lemma object_name_sampled:
  "format_object_name sampled_url =
     ''a04d1f3c7b5880328a426a224994e2df4f5ef42ddfc7ad534f487ac6915ef900''"
  unfolding sampled_url_def by code_simp

lemma object_name_unsampled:
  "format_object_name unsampled_url =
     ''0f115db062b7c0dd030b16878c99dea5c354b49dc37b38eb8846179c7783e9d7''"
  unfolding unsampled_url_def by code_simp

lemma sampled_url_sampled: "endswith (format_object_name sampled_url) ''00''"
  by (simp add: object_name_sampled endswith_def)

lemma unsampled_url_unsampled: "\<not> endswith (format_object_name unsampled_url) ''00''"
  by (simp add: object_name_unsampled endswith_def)

lemma trace_emit [simp]: "trace (emit e w) = trace w @ [e]"
  by (simp add: emit_def)

lemma bucket_emit [simp]: "bucket (emit e w) = bucket w"
  by (simp add: emit_def)

lemma store_calls_emit [simp]: "store_calls (emit e w) = store_calls w"
  by (simp add: emit_def)

lemma cache_client_var_emit [simp]: "cache_client_var (emit e w) = cache_client_var w"
  by (simp add: emit_def)

lemma new_events_append [simp]: "trace w' = trace w @ evs \<Longrightarrow> new_events w w' = evs"
  by (simp add: new_events_def)

lemma store_unsampled:
  "\<not> endswith (format_object_name u) ''00'' \<Longrightarrow>
   store lib c en u w = (Inr (), w\<lparr>store_calls := store_calls w @ [u]\<rparr>)"
  by (simp add: store_def Let_def)

lemma store_exists_fault:
  "endswith (format_object_name u) ''00'' \<Longrightarrow> exists_fault en (format_object_name u) = Some e \<Longrightarrow>
   store lib c en u w =
     (Inl e, emit (Exists (format_object_name u)) (w\<lparr>store_calls := store_calls w @ [u]\<rparr>))"
  by (simp add: store_def Let_def blob_exists_def)

lemma store_existing:
  "endswith (format_object_name u) ''00'' \<Longrightarrow> exists_fault en (format_object_name u) = None \<Longrightarrow>
   bucket w (format_object_name u) \<noteq> None \<Longrightarrow>
   store lib c en u w =
     (Inr (), emit (Log Debug u) (emit (Exists (format_object_name u))
                (w\<lparr>store_calls := store_calls w @ [u]\<rparr>)))"
  by (auto simp add: store_def Let_def blob_exists_def)

lemma store_fresh:
  "endswith (format_object_name u) ''00'' \<Longrightarrow> exists_fault en (format_object_name u) = None \<Longrightarrow>
   bucket w (format_object_name u) = None \<Longrightarrow>
   store lib c en u w =
     except_RequestException u (store_try lib c en u (format_object_name u)
        (emit (Exists (format_object_name u)) (w\<lparr>store_calls := store_calls w @ [u]\<rparr>)))"
  by (simp add: store_def Let_def blob_exists_def)

text \<open>What store_try does to the world, by outcome.\<close>

lemma store_try_cases:
  "(\<exists>evs. trace (snd (store_try lib c en u n w)) = trace w @ Head u # evs
        \<and> filter is_Upload evs = [] \<and> bucket (snd (store_try lib c en u n w)) = bucket w)
   \<or> (\<exists>b. fst (store_try lib c en u n w) = Inr ()
        \<and> trace (snd (store_try lib c en u n w)) = trace w @ [Head u, Get u, Upload n, Log Info u]
        \<and> bucket (snd (store_try lib c en u n w)) = (bucket w)(n \<mapsto> b))"
  by (auto simp: store_try_def requests_head_def requests_get_def upload_from_string_def
      split: sum.splits option.splits prod.splits)

lemma store_try_store_calls [simp]:
  "store_calls (snd (store_try lib c en u n w)) = store_calls w"
  by (auto simp: store_try_def requests_head_def requests_get_def upload_from_string_def
      split: sum.splits option.splits prod.splits)

lemma except_cases:
  "(except_RequestException u rw = rw) \<or>
   (fst rw = Inl RequestException \<and> except_RequestException u rw = (Inr (), emit (Log Warning u) (snd rw)))"
  by (auto simp: except_RequestException_def split: prod.splits sum.splits exn.splits)

subsection \<open>Sampling\<close>

lemma sampled_iff: "endswith (format_object_name u) ''00'' \<longleftrightarrow> last (sha256 (encode u)) = 0"
proof -
  have "sha256 (encode u) \<noteq> []" using length_sha256 [of "encode u"] by auto
  then show ?thesis by (simp add: format_object_name_def endswith_hexdigest)
qed

lemma store_sampled_exists:
  "endswith (format_object_name u) ''00'' \<Longrightarrow>
   \<exists>evs. trace (snd (store lib c en u w)) = trace w @ Exists (format_object_name u) # evs"
  apply (cases "exists_fault en (format_object_name u)")
   apply (cases "bucket w (format_object_name u)")
  subgoal
    using store_try_cases [of lib c en u "format_object_name u"
        "emit (Exists (format_object_name u)) (w\<lparr>store_calls := store_calls w @ [u]\<rparr>)"]
      except_cases [of u "store_try lib c en u (format_object_name u)
        (emit (Exists (format_object_name u)) (w\<lparr>store_calls := store_calls w @ [u]\<rparr>))"]
    by (auto simp: store_fresh)
  subgoal by (simp add: store_existing)
  subgoal by (simp add: store_exists_fault)
  done

text \<open>
  Claim C2. \<open>store\<close> first applies the sampling policy: a URL is eligible exactly when
  the last byte of its SHA-256 digest is 00, that is when its object name ends in the two
  hexadecimal characters \<open>00\<close>, one value out of the 256 a byte can take. A URL that fails
  the test is skipped: the call returns with the bucket and the trace untouched, so no
  request was sent and no object written. An eligible URL goes on to the existence check.

\<close>

theorem store_sampling_policy:
  "(endswith (format_object_name u) ''00'' \<longleftrightarrow> last (sha256 (encode u)) = 0)
   \<and> (last (sha256 (encode u)) \<noteq> 0 \<longrightarrow>
        store lib c en u w = (Inr (), w\<lparr>store_calls := store_calls w @ [u]\<rparr>))
   \<and> (last (sha256 (encode u)) = 0 \<longrightarrow>
        (\<exists>evs. new_events w (snd (store lib c en u w)) = Exists (format_object_name u) # evs))"
proof (intro conjI impI)
  show "endswith (format_object_name u) ''00'' \<longleftrightarrow> last (sha256 (encode u)) = 0"
    by (rule sampled_iff)
next
  assume "last (sha256 (encode u)) \<noteq> 0"
  then show "store lib c en u w = (Inr (), w\<lparr>store_calls := store_calls w @ [u]\<rparr>)"
    by (simp add: store_unsampled sampled_iff)
next
  assume "last (sha256 (encode u)) = 0"
  then have "endswith (format_object_name u) ''00''" by (simp add: sampled_iff)
  from store_sampled_exists [OF this, of lib c en w]
  show "\<exists>evs. new_events w (snd (store lib c en u w)) = Exists (format_object_name u) # evs"
    by (auto simp: new_events_def)
qed

theorem store_sampling_policy_witness:
  "last (sha256 (encode unsampled_url)) \<noteq> 0
   \<and> store demo_lib demo_client good_env unsampled_url empty_world
       = (Inr (), empty_world\<lparr>store_calls := [unsampled_url]\<rparr>)
   \<and> last (sha256 (encode sampled_url)) = 0
   \<and> (\<exists>evs. new_events empty_world (snd (store demo_lib demo_client good_env sampled_url empty_world))
          = Exists (format_object_name sampled_url) # evs)"
  using store_sampling_policy [of unsampled_url demo_lib demo_client good_env empty_world]
    store_sampling_policy [of sampled_url demo_lib demo_client good_env empty_world]
    sampled_url_sampled unsampled_url_unsampled
  by (simp add: empty_world_def)

subsection \<open>The size bound\<close>

lemma store_try_no_get:
  assumes "head_reply en u = Inr r" "status_code r = 200"
    and "resp_headers r ''Content-Length'' = None
         \<or> (\<exists>cl n. resp_headers r ''Content-Length'' = Some cl \<and> py_int lib cl = Some n
                \<and> n > max_store_size c)"
  shows "bucket (snd (store_try lib c en u n w)) = bucket w
       \<and> (\<exists>evs. trace (snd (store_try lib c en u n w)) = trace w @ evs
              \<and> filter (\<lambda>e. is_Get e \<or> is_Upload e) evs = [])
       \<and> fst (store_try lib c en u n w) \<noteq> Inl RequestException"
  using assms
  by (auto simp: store_try_def requests_head_def split: option.splits)

text \<open>
  Claim C4. For a sampled URL that is not yet in the bucket and whose HEAD probe answers
  200: when the response has no Content-Length, or a Content-Length above the client's
  \<open>max_store_size\<close>, \<open>store\<close> stops there. Its run adds no GET request and no upload
  to the trace, and the bucket is as it was.
\<close>

theorem store_size_bound:
  assumes "endswith (format_object_name u) ''00''"
    and "exists_fault en (format_object_name u) = None"
    and "bucket w (format_object_name u) = None"
    and "head_reply en u = Inr r" and "status_code r = 200"
    and "resp_headers r ''Content-Length'' = None
         \<or> (\<exists>cl n. resp_headers r ''Content-Length'' = Some cl \<and> py_int lib cl = Some n
                \<and> n > max_store_size c)"
  shows "bucket (snd (store lib c en u w)) = bucket w
       \<and> filter (\<lambda>e. is_Get e \<or> is_Upload e) (new_events w (snd (store lib c en u w))) = []"
proof -
  let ?w1 = "emit (Exists (format_object_name u)) (w\<lparr>store_calls := store_calls w @ [u]\<rparr>)"
  let ?t = "store_try lib c en u (format_object_name u) ?w1"
  from store_try_no_get [OF assms(4,5,6), of "format_object_name u" ?w1]
  obtain evs where b: "bucket (snd ?t) = bucket w"
    and t: "trace (snd ?t) = trace w @ Exists (format_object_name u) # evs"
    and f: "filter (\<lambda>e. is_Get e \<or> is_Upload e) evs = []"
    and r: "fst ?t \<noteq> Inl RequestException"
    by auto
  have "except_RequestException u ?t = ?t"
    using r except_cases [of u ?t] by auto
  then have s: "store lib c en u w = ?t"
    by (simp add: store_fresh [OF assms(1,2,3)])
  show ?thesis
    using b t f by (simp add: s new_events_def)
qed

theorem store_size_bound_witness:
  "bucket (snd (store demo_lib demo_client big_env sampled_url empty_world)) = bucket empty_world
   \<and> filter (\<lambda>e. is_Get e \<or> is_Upload e)
        (new_events empty_world
          (snd (store demo_lib demo_client big_env sampled_url empty_world))) = []"
  by (rule store_size_bound [where r = "big_head sampled_url"])
     (simp_all add: sampled_url_sampled big_env_def good_env_def empty_world_def big_head_def
        demo_lib_def demo_client_def)

subsection \<open>What one call of store writes\<close>

lemma store_outcome:
  "\<exists>evs. trace (snd (store lib c en u w)) = trace w @ evs
       \<and> ((filter is_Upload evs = [] \<and> bucket (snd (store lib c en u w)) = bucket w)
          \<or> (filter is_Upload evs = [Upload (format_object_name u)]
              \<and> (\<exists>b. bucket (snd (store lib c en u w)) = (bucket w)(format_object_name u \<mapsto> b))))"
proof (cases "endswith (format_object_name u) ''00''")
  case False
  then show ?thesis by (simp add: store_unsampled)
next
  case True
  show ?thesis
  proof (cases "exists_fault en (format_object_name u)")
    case (Some e)
    then show ?thesis by (simp add: store_exists_fault [OF True])
  next
    case None
    show ?thesis
    proof (cases "bucket w (format_object_name u)")
      case (Some b)
      then show ?thesis by (simp add: store_existing [OF True None])
    next
      case nb: None
      let ?w1 = "emit (Exists (format_object_name u)) (w\<lparr>store_calls := store_calls w @ [u]\<rparr>)"
      let ?t = "store_try lib c en u (format_object_name u) ?w1"
      have s: "store lib c en u w = except_RequestException u ?t"
        by (rule store_fresh [OF True None nb])
      from store_try_cases [of lib c en u "format_object_name u" ?w1]
      show ?thesis
      proof
        assume "\<exists>evs. trace (snd ?t) = trace ?w1 @ Head u # evs \<and> filter is_Upload evs = []
                  \<and> bucket (snd ?t) = bucket ?w1"
        then show ?thesis
          using except_cases [of u ?t] by (auto simp: s)
      next
        assume "\<exists>b. fst ?t = Inr () \<and> trace (snd ?t) = trace ?w1 @ [Head u, Get u, Upload (format_object_name u), Log Info u]
                  \<and> bucket (snd ?t) = (bucket ?w1)(format_object_name u \<mapsto> b)"
        then show ?thesis
          using except_cases [of u ?t] by (auto simp: s)
      qed
    qed
  qed
qed

lemma store_existing_quiet:
  assumes "bucket w (format_object_name u) \<noteq> None"
  shows "bucket (snd (store lib c en u w)) = bucket w
       \<and> filter (\<lambda>e. is_Head e \<or> is_Get e \<or> is_Upload e)
            (new_events w (snd (store lib c en u w))) = []"
proof (cases "endswith (format_object_name u) ''00''")
  case False
  then show ?thesis by (simp add: store_unsampled new_events_def)
next
  case True
  show ?thesis
  proof (cases "exists_fault en (format_object_name u)")
    case (Some e)
    then show ?thesis by (simp add: store_exists_fault [OF True] new_events_def)
  next
    case None
    then show ?thesis by (simp add: store_existing [OF True None assms] new_events_def)
  qed
qed

lemma store_first_write_second_quiet:
  "(bucket w (format_object_name u) \<noteq> None \<longrightarrow>
      bucket (snd (store lib c en u w)) = bucket w
      \<and> filter (\<lambda>e. is_Head e \<or> is_Get e \<or> is_Upload e)
           (new_events w (snd (store lib c en u w))) = [])
   \<and> (length (filter is_Upload (new_events w (snd (store lib c en u w)))) = 1 \<longrightarrow>
        filter (\<lambda>e. is_Head e \<or> is_Get e \<or> is_Upload e)
           (new_events (snd (store lib c en u w))
              (snd (store lib c en' u (snd (store lib c en u w))))) = []
        \<and> length (filter is_Upload
             (new_events w (snd (store lib c en' u (snd (store lib c en u w)))))) = 1)"
proof (intro conjI impI)
  assume "bucket w (format_object_name u) \<noteq> None"
  then show "bucket (snd (store lib c en u w)) = bucket w"
    and "filter (\<lambda>e. is_Head e \<or> is_Get e \<or> is_Upload e)
           (new_events w (snd (store lib c en u w))) = []"
    using store_existing_quiet by blast+
next
  let ?w1 = "snd (store lib c en u w)"
  let ?w2 = "snd (store lib c en' u ?w1)"
  assume one: "length (filter is_Upload (new_events w ?w1)) = 1"
  from store_outcome [of lib c en u w] obtain evs where
    t1: "trace ?w1 = trace w @ evs" and
    o: "(filter is_Upload evs = [] \<and> bucket ?w1 = bucket w)
        \<or> (filter is_Upload evs = [Upload (format_object_name u)]
            \<and> (\<exists>b. bucket ?w1 = (bucket w)(format_object_name u \<mapsto> b)))"
    by blast
  have ne: "new_events w ?w1 = evs" using t1 by simp
  from one o ne have ex: "bucket ?w1 (format_object_name u) \<noteq> None" by auto
  from store_existing_quiet [OF ex, of lib c en']
  have q: "filter (\<lambda>e. is_Head e \<or> is_Get e \<or> is_Upload e) (new_events ?w1 ?w2) = []"
    by simp
  show "filter (\<lambda>e. is_Head e \<or> is_Get e \<or> is_Upload e) (new_events ?w1 ?w2) = []"
    by (rule q)
  from store_outcome [of lib c en' u ?w1] obtain evs2 where
    t2: "trace ?w2 = trace ?w1 @ evs2" by blast
  have ne2: "new_events ?w1 ?w2 = evs2" using t2 by simp
  have "filter is_Upload evs2 = []"
    using q unfolding ne2 by (auto simp: filter_empty_conv)
  moreover have "new_events w ?w2 = evs @ evs2"
    using t1 t2 by (simp add: new_events_def)
  ultimately show "length (filter is_Upload (new_events w ?w2)) = 1"
    using one ne by simp
qed

lemma store_good_sampled:
  "store demo_lib demo_client good_env sampled_url empty_world =
    (Inr (), \<lparr>bucket = [format_object_name sampled_url \<mapsto>
                 \<lparr>blob_contents = encode ''hello world!'', content_type = ''text/plain'',
                  content_disposition = ''attachment; filename='' @ [dquote] @ ''=?utf-8?q?log151=2Etxt?='' @ [dquote]\<rparr>],
              trace = [Exists (format_object_name sampled_url), Head sampled_url, Get sampled_url,
                       Upload (format_object_name sampled_url), Log Info sampled_url],
              store_calls = [sampled_url], cache_client_var = None\<rparr>)"
proof -
  have "store demo_lib demo_client good_env sampled_url empty_world =
     except_RequestException sampled_url (store_try demo_lib demo_client good_env sampled_url
        (format_object_name sampled_url)
        (emit (Exists (format_object_name sampled_url))
           (empty_world\<lparr>store_calls := store_calls empty_world @ [sampled_url]\<rparr>)))"
    by (rule store_fresh) (simp_all add: sampled_url_sampled good_env_def empty_world_def)
  also have "\<dots> = (Inr (), \<lparr>bucket = [format_object_name sampled_url \<mapsto>
                 \<lparr>blob_contents = encode ''hello world!'', content_type = ''text/plain'',
                  content_disposition = ''attachment; filename='' @ [dquote] @ ''=?utf-8?q?log151=2Etxt?='' @ [dquote]\<rparr>],
              trace = [Exists (format_object_name sampled_url), Head sampled_url, Get sampled_url,
                       Upload (format_object_name sampled_url), Log Info sampled_url],
              store_calls = [sampled_url], cache_client_var = None\<rparr>)"
    by (simp add: store_try_def requests_head_def requests_get_def upload_from_string_def
        except_RequestException_def good_env_def head_ok_def get_ok_def demo_lib_def
        demo_client_def empty_world_def emit_def extract_content_disposition_def Let_def
        sampled_url_def [symmetric])
  finally show ?thesis .
qed

subsection \<open>Failures that store swallows\<close>



lemma store_upload_fault:
  assumes "endswith (format_object_name u) ''00''"
    and "exists_fault en (format_object_name u) = None"
    and "bucket w (format_object_name u) = None"
    and "head_reply en u = Inr r" "status_code r = 200"
    and "resp_headers r ''Content-Type'' = Some ctype"
    and "resp_headers r ''Content-Length'' = Some l" "py_int lib l = Some k"
    and "\<not> k > max_store_size c"
    and "get_reply en u = Inr r2" "status_code r2 = 200"
    and "upload_fault en (format_object_name u) = Some e" "e \<noteq> RequestException"
  shows "fst (store lib c en u w) = Inl e \<and> bucket (snd (store lib c en u w)) = bucket w"
  using assms(4-)
  by (simp add: store_fresh [OF assms(1,2,3)] store_try_def requests_head_def requests_get_def
        upload_from_string_def except_RequestException_def split: exn.splits)


subsection \<open>Content disposition and Client.map\<close>

lemma rsplit_last_no_slash: "CHR ''/'' \<notin> set s \<Longrightarrow> rsplit_last s = s"
  by (induction s) auto

lemma rsplit_last_append:
  "CHR ''/'' \<notin> set s \<Longrightarrow> rsplit_last (p @ CHR ''/'' # s) = s"
  by (induction p) (auto simp: rsplit_last_no_slash)




text \<open>
  Claim C7. With \<open>ttl\<close> omitted and the existence check answered, \<open>map\<close> returns None
  when no object exists under the object name, and otherwise the public address built from
  the bucket name and the hexadecimal SHA-256 digest of the URL alone. The existence check
  is the one event the call adds to the trace.
\<close>

theorem map_public_url:
  assumes "exists_fault en (format_object_name u) = None"
  shows "map_url c en (PyStr u) PyNone w =
      (Inr (if bucket w (format_object_name u) = None then None
            else Some (''https://storage.googleapis.com/'' @ bucket_name c @ ''/''
                        @ hexdigest (sha256 (encode u)))),
       emit (Exists (format_object_name u)) w)"
  using assms
  by (simp add: map_url_def map_body_def Let_def blob_exists_def format_public_url_def format_object_name_def)

theorem map_public_url_witness:
  "map_url demo_client good_env (PyStr sampled_url) PyNone cached_world =
      (Inr (if bucket cached_world (format_object_name sampled_url) = None then None
            else Some (''https://storage.googleapis.com/'' @ bucket_name demo_client @ ''/''
                        @ hexdigest (sha256 (encode sampled_url)))),
       emit (Exists (format_object_name sampled_url)) cached_world)"
  by (rule map_public_url) (simp add: good_env_def)

lemma map_url_cached_ttl:
  assumes "exists_fault en (format_object_name u) = None"
    and "bucket w (format_object_name u) \<noteq> None"
  shows "map_url c en (PyStr u) (PyTimedelta d) w =
           map_signed en (format_object_name u) (PyTimedelta d)
             (emit (Exists (format_object_name u)) w)"
  using assms by (auto simp: map_url_def map_body_def Let_def blob_exists_def)

text \<open>
  Claim C6, as amended. For a cached URL and a ttl, \<open>map\<close> obtains the default
  credentials, refreshes them exactly when their token is None, and returns the address
  signed for method GET, version v4, with the ttl as expiration, the service account email
  and the token of the credentials it ends up with.
\<close>

theorem map_signed_url:
  assumes "exists_fault en (format_object_name u) = None"
    and "bucket w (format_object_name u) \<noteq> None"
    and "auth_default en = Inr cr"
  shows "(token cr \<noteq> None \<longrightarrow>
          map_url c en (PyStr u) (PyTimedelta d) w =
            (map_sum id Some (signed_url en
               \<lparr>sign_object = format_object_name u, sign_version = ''v4'', sign_method = ''GET'',
                sign_expiration = PyTimedelta d, sign_email = service_account_email cr,
                sign_access_token = token cr\<rparr>),
             emit (Sign \<lparr>sign_object = format_object_name u, sign_version = ''v4'',
                sign_method = ''GET'', sign_expiration = PyTimedelta d,
                sign_email = service_account_email cr, sign_access_token = token cr\<rparr>)
               (emit AuthDefault (emit (Exists (format_object_name u)) w))))
       \<and> (token cr = None \<and> refresh_reply en cr = Inr cr2 \<longrightarrow>
          map_url c en (PyStr u) (PyTimedelta d) w =
            (map_sum id Some (signed_url en
               \<lparr>sign_object = format_object_name u, sign_version = ''v4'', sign_method = ''GET'',
                sign_expiration = PyTimedelta d, sign_email = service_account_email cr2,
                sign_access_token = token cr2\<rparr>),
             emit (Sign \<lparr>sign_object = format_object_name u, sign_version = ''v4'',
                sign_method = ''GET'', sign_expiration = PyTimedelta d,
                sign_email = service_account_email cr2, sign_access_token = token cr2\<rparr>)
               (emit Refresh (emit AuthDefault (emit (Exists (format_object_name u)) w)))))"
  using assms(3)
  by (auto simp: map_url_cached_ttl [OF assms(1,2)] map_signed_def Let_def split: sum.splits)

lemma map_signed_trace: "\<exists>evs. trace (snd (map_signed en n ttl w)) = trace w @ evs"
  by (auto simp: map_signed_def Let_def split: sum.splits)

lemma map_body_trace:
  "\<exists>evs. trace (snd (map_body c en u ttl w)) = trace w @ Exists (format_object_name u) # evs"
proof (cases "exists_fault en (format_object_name u)")
  case (Some e)
  then show ?thesis by (simp add: map_body_def Let_def blob_exists_def)
next
  case None
  show ?thesis
  proof (cases "bucket w (format_object_name u)")
    case nb: None
    then show ?thesis using None by (simp add: map_body_def Let_def blob_exists_def)
  next
    case (Some b)
    show ?thesis
    proof (cases "ttl = PyNone")
      case True
      then show ?thesis using None Some by (simp add: map_body_def Let_def blob_exists_def)
    next
      case False
      from map_signed_trace [of en "format_object_name u" ttl "emit (Exists (format_object_name u)) w"]
      show ?thesis using None Some False by (auto simp: map_body_def Let_def blob_exists_def)
    qed
  qed
qed

text \<open>
  Claim C10. \<open>map\<close> raises AssertionError, with the world untouched, when \<open>url\<close> is not
  a \<open>str\<close> or when \<open>ttl\<close> is neither None nor a timedelta. When both conditions hold
  the assertions pass: the call is the body of \<open>map\<close>, which begins with the existence
  check.
\<close>

theorem map_assertions:
  "((\<forall>s. url \<noteq> PyStr s) \<or> \<not> (ttl = PyNone \<or> is_timedelta ttl) \<longrightarrow>
       map_url c en url ttl w = (Inl AssertionError, w))
   \<and> (url = PyStr s \<and> (ttl = PyNone \<or> is_timedelta ttl) \<longrightarrow>
       map_url c en url ttl w = map_body c en s ttl w
       \<and> (\<exists>evs. new_events w (snd (map_url c en url ttl w)) = Exists (format_object_name s) # evs))"
proof (intro conjI impI)
  assume "(\<forall>s. url \<noteq> PyStr s) \<or> \<not> (ttl = PyNone \<or> is_timedelta ttl)"
  then show "map_url c en url ttl w = (Inl AssertionError, w)"
    by (cases url) (auto simp: map_url_def)
next
  assume a: "url = PyStr s \<and> (ttl = PyNone \<or> is_timedelta ttl)"
  then show m: "map_url c en url ttl w = map_body c en s ttl w"
    by (auto simp: map_url_def)
  from map_body_trace [of c en s ttl w]
  show "\<exists>evs. new_events w (snd (map_url c en url ttl w)) = Exists (format_object_name s) # evs"
    unfolding m by (auto simp: new_events_def)
qed

theorem map_assertions_witness:
  "map_url demo_client good_env (PyInt 7) PyNone empty_world = (Inl AssertionError, empty_world)
   \<and> map_url demo_client good_env (PyStr sampled_url) (PyInt 10) empty_world
        = (Inl AssertionError, empty_world)
   \<and> map_url demo_client good_env (PyStr sampled_url) (PyTimedelta 10000000) empty_world
        = map_body demo_client good_env sampled_url (PyTimedelta 10000000) empty_world
   \<and> (\<exists>evs. new_events empty_world
         (snd (map_url demo_client good_env (PyStr sampled_url) (PyTimedelta 10000000) empty_world))
           = Exists (format_object_name sampled_url) # evs)"
proof -
  have a: "map_url demo_client good_env (PyInt 7) PyNone empty_world = (Inl AssertionError, empty_world)"
    using map_assertions [of "PyInt 7" PyNone demo_client good_env empty_world] by simp
  have b: "map_url demo_client good_env (PyStr sampled_url) (PyInt 10) empty_world
        = (Inl AssertionError, empty_world)"
    using map_assertions [of "PyStr sampled_url" "PyInt 10" demo_client good_env empty_world]
    by simp
  have c: "PyStr sampled_url = PyStr sampled_url
      \<and> (PyTimedelta 10000000 = PyNone \<or> is_timedelta (PyTimedelta 10000000))"
    by simp
  from map_assertions [of "PyStr sampled_url" "PyTimedelta 10000000" demo_client good_env
      empty_world sampled_url] c a b
  show ?thesis by blast
qed

subsection \<open>Exceptions that leave store, and stale credentials\<close>




lemma bucket_cached_world: "bucket cached_world (format_object_name sampled_url) \<noteq> None"
  by (simp add: cached_world_def)

theorem map_signed_url_witness:
  "map_url demo_client stale_env (PyStr sampled_url) (PyTimedelta 10000000) cached_world =
     (Inr (Some (''https://storage.googleapis.com/kcidb-cache/'' @ format_object_name sampled_url
                  @ ''?X-Goog-Signature=s'')),
      emit (Sign \<lparr>sign_object = format_object_name sampled_url, sign_version = ''v4'',
                sign_method = ''GET'', sign_expiration = PyTimedelta 10000000,
                sign_email = ''cache@example.iam'', sign_access_token = Some ''old-token''\<rparr>)
        (emit AuthDefault (emit (Exists (format_object_name sampled_url)) cached_world)))
   \<and> map_url demo_client good_env (PyStr sampled_url) (PyTimedelta 10000000) cached_world =
     (Inr (Some (''https://storage.googleapis.com/kcidb-cache/'' @ format_object_name sampled_url
                  @ ''?X-Goog-Signature=s'')),
      emit (Sign \<lparr>sign_object = format_object_name sampled_url, sign_version = ''v4'',
                sign_method = ''GET'', sign_expiration = PyTimedelta 10000000,
                sign_email = ''cache@example.iam'', sign_access_token = Some ''new-token''\<rparr>)
        (emit Refresh (emit AuthDefault (emit (Exists (format_object_name sampled_url)) cached_world))))"
proof -
  have s: "exists_fault stale_env (format_object_name sampled_url) = None"
    "auth_default stale_env = Inr stale_credentials"
    by (simp_all add: stale_env_def good_env_def)
  have g: "exists_fault good_env (format_object_name sampled_url) = None"
    "auth_default good_env = Inr fresh_credentials"
    by (simp_all add: good_env_def)
  have t: "token stale_credentials \<noteq> None" by (simp add: stale_credentials_def)
  have r: "token fresh_credentials = None
      \<and> refresh_reply good_env fresh_credentials =
          Inr \<lparr>token = Some ''new-token'', service_account_email = ''cache@example.iam'',
               expired = False\<rparr>"
    by (simp add: fresh_credentials_def good_env_def)
  have a: "map_url demo_client stale_env (PyStr sampled_url) (PyTimedelta 10000000) cached_world =
     (Inr (Some (''https://storage.googleapis.com/kcidb-cache/'' @ format_object_name sampled_url
                  @ ''?X-Goog-Signature=s'')),
      emit (Sign \<lparr>sign_object = format_object_name sampled_url, sign_version = ''v4'',
                sign_method = ''GET'', sign_expiration = PyTimedelta 10000000,
                sign_email = ''cache@example.iam'', sign_access_token = Some ''old-token''\<rparr>)
        (emit AuthDefault (emit (Exists (format_object_name sampled_url)) cached_world)))"
    using map_signed_url [OF s(1) bucket_cached_world s(2), of demo_client 10000000] t
    by (simp add: stale_credentials_def) (simp add: stale_env_def good_env_def)
  have b: "map_url demo_client good_env (PyStr sampled_url) (PyTimedelta 10000000) cached_world =
     (Inr (Some (''https://storage.googleapis.com/kcidb-cache/'' @ format_object_name sampled_url
                  @ ''?X-Goog-Signature=s'')),
      emit (Sign \<lparr>sign_object = format_object_name sampled_url, sign_version = ''v4'',
                sign_method = ''GET'', sign_expiration = PyTimedelta 10000000,
                sign_email = ''cache@example.iam'', sign_access_token = Some ''new-token''\<rparr>)
        (emit Refresh (emit AuthDefault (emit (Exists (format_object_name sampled_url)) cached_world))))"
    using map_signed_url [OF g(1) bucket_cached_world g(2), of demo_client 10000000
      "\<lparr>token = Some ''new-token'', service_account_email = ''cache@example.iam'', expired = False\<rparr>"]
      r
    by simp (simp add: good_env_def)
  from a b show ?thesis by blast
qed

text \<open>
  Credentials that are expired but still carry a token are not refreshed: the trace of the
  call has no \<open>Refresh\<close> and the address is signed with the old token.
\<close>

theorem map_no_refresh_counterexample:
  "expired stale_credentials
   \<and> auth_default stale_env = Inr stale_credentials
   \<and> new_events cached_world
        (snd (map_url demo_client stale_env (PyStr sampled_url) (PyTimedelta 10000000) cached_world))
      = [Exists (format_object_name sampled_url), AuthDefault,
         Sign \<lparr>sign_object = format_object_name sampled_url, sign_version = ''v4'',
               sign_method = ''GET'', sign_expiration = PyTimedelta 10000000,
               sign_email = ''cache@example.iam'', sign_access_token = Some ''old-token''\<rparr>]"
proof -
  have s: "exists_fault stale_env (format_object_name sampled_url) = None"
    by (simp add: stale_env_def good_env_def)
  show ?thesis
    unfolding map_url_cached_ttl [OF s bucket_cached_world]
    by (simp add: map_signed_def Let_def stale_env_def good_env_def stale_credentials_def
        new_events_def)
qed

subsection \<open>The ingestion function\<close>




lemma store_calls_get_cache_client [simp]:
  "store_calls (snd (get_cache_client bn w)) = store_calls w"
  by (simp add: get_cache_client_def Let_def split: option.splits)






subsection \<open>The redirect gateway\<close>

text \<open>
  Claim C3, as amended. For a request whose query string is ASCII and for which the
  resolver returns, the redirect gateway replies with exactly one of: 405 with the header
  Allow: GET when the method is not GET; 400 with a sentence asking for a valid URL when the
  percent-decoded query string is empty; 302 with Location set to the address the resolver
  returned (called with a ttl of ten seconds) when it returned a non-empty one; 302 with
  Location set to the percent-decoded URL itself when the resolver returned None.
\<close>

theorem kcidb_cache_redirect_replies:
  "(req_method rq \<noteq> ''GET'' \<longrightarrow>
      kcidb_cache_redirect lib bn en rq w
        = (Inr (''Method not allowed.'', 405, [(''Allow'', ''GET'')]), w))
   \<and> (req_method rq = ''GET'' \<and> decode_ascii (query_string rq) = Some qs \<and> unquote lib qs = [] \<longrightarrow>
      fst (kcidb_cache_redirect lib bn en rq w)
        = Inr (''Provide a valid URL to query from the caching system.'', 400, []))
   \<and> (req_method rq = ''GET'' \<and> decode_ascii (query_string rq) = Some qs \<and> unquote lib qs \<noteq> []
        \<and> fst (map_url (fst (get_cache_client bn (emit (Log Debug (unquote lib qs)) w))) en
                 (PyStr (unquote lib qs)) (PyTimedelta 10000000)
                 (snd (get_cache_client bn (emit (Log Debug (unquote lib qs)) w)))) = Inr (Some a)
        \<and> a \<noteq> [] \<longrightarrow>
      fst (kcidb_cache_redirect lib bn en rq w) = Inr ('''', 302, [(''Location'', a)]))
   \<and> (req_method rq = ''GET'' \<and> decode_ascii (query_string rq) = Some qs \<and> unquote lib qs \<noteq> []
        \<and> fst (map_url (fst (get_cache_client bn (emit (Log Debug (unquote lib qs)) w))) en
                 (PyStr (unquote lib qs)) (PyTimedelta 10000000)
                 (snd (get_cache_client bn (emit (Log Debug (unquote lib qs)) w)))) = Inr None \<longrightarrow>
      fst (kcidb_cache_redirect lib bn en rq w)
        = Inr ('''', 302, [(''Location'', unquote lib qs)]))"
  by (auto simp: kcidb_cache_redirect_def CACHE_REDIRECT_TTL_def Let_def
      split: prod.splits sum.splits option.splits)

lemma decode_demo_query:
  "decode_ascii (query_string demo_request) = Some ''https%3A//example.com/log151.txt''"
  unfolding demo_request_def by code_simp

lemma unquote_demo_query:
  "unquote demo_lib ''https%3A//example.com/log151.txt'' = sampled_url"
  by (simp add: demo_lib_def)

lemma sampled_url_nonempty: "sampled_url \<noteq> []"
  by (simp add: sampled_url_def)

lemma demo_resolver_cached:
  "fst (map_url (fst (get_cache_client ''kcidb-cache'' (emit (Log Debug sampled_url) cached_world)))
          good_env (PyStr sampled_url) (PyTimedelta 10000000)
          (snd (get_cache_client ''kcidb-cache'' (emit (Log Debug sampled_url) cached_world))))
     = Inr (Some (''https://storage.googleapis.com/kcidb-cache/'' @ format_object_name sampled_url
                    @ ''?X-Goog-Signature=s''))"
proof -
  let ?w = "snd (get_cache_client ''kcidb-cache'' (emit (Log Debug sampled_url) cached_world))"
  have b: "bucket ?w (format_object_name sampled_url) \<noteq> None"
    by (simp add: get_cache_client_def Let_def cached_world_def empty_world_def emit_def)
  have f: "exists_fault good_env (format_object_name sampled_url) = None"
    by (simp add: good_env_def)
  show ?thesis
    unfolding map_url_cached_ttl [OF f b]
    by (simp add: map_signed_def Let_def good_env_def fresh_credentials_def)
qed

lemma demo_resolver_absent:
  "fst (map_url (fst (get_cache_client ''kcidb-cache'' (emit (Log Debug sampled_url) empty_world)))
          good_env (PyStr sampled_url) (PyTimedelta 10000000)
          (snd (get_cache_client ''kcidb-cache'' (emit (Log Debug sampled_url) empty_world))))
     = Inr None"
  by (simp add: map_url_def map_body_def Let_def blob_exists_def good_env_def
      get_cache_client_def empty_world_def emit_def)

theorem kcidb_cache_redirect_replies_witness:
  "kcidb_cache_redirect demo_lib ''kcidb-cache'' good_env post_request empty_world
     = (Inr (''Method not allowed.'', 405, [(''Allow'', ''GET'')]), empty_world)
   \<and> fst (kcidb_cache_redirect demo_lib ''kcidb-cache'' good_env empty_request empty_world)
     = Inr (''Provide a valid URL to query from the caching system.'', 400, [])
   \<and> fst (kcidb_cache_redirect demo_lib ''kcidb-cache'' good_env demo_request cached_world)
     = Inr ('''', 302, [(''Location'', ''https://storage.googleapis.com/kcidb-cache/''
                           @ format_object_name sampled_url @ ''?X-Goog-Signature=s'')])
   \<and> fst (kcidb_cache_redirect demo_lib ''kcidb-cache'' good_env demo_request empty_world)
     = Inr ('''', 302, [(''Location'', sampled_url)])"
proof (intro conjI)
  show "kcidb_cache_redirect demo_lib ''kcidb-cache'' good_env post_request empty_world
     = (Inr (''Method not allowed.'', 405, [(''Allow'', ''GET'')]), empty_world)"
    using kcidb_cache_redirect_replies [of post_request demo_lib "''kcidb-cache''" good_env
        empty_world]
    by (simp add: post_request_def)
  have e: "req_method empty_request = ''GET'' \<and> decode_ascii (query_string empty_request) = Some []
      \<and> unquote demo_lib [] = []"
    by (simp add: empty_request_def decode_ascii_def demo_lib_def)
  show "fst (kcidb_cache_redirect demo_lib ''kcidb-cache'' good_env empty_request empty_world)
     = Inr (''Provide a valid URL to query from the caching system.'', 400, [])"
    using kcidb_cache_redirect_replies [of empty_request demo_lib "''kcidb-cache''" good_env
        empty_world "[]"] e
    by blast
  have g: "req_method demo_request = ''GET''" by (simp add: demo_request_def)
  show "fst (kcidb_cache_redirect demo_lib ''kcidb-cache'' good_env demo_request cached_world)
     = Inr ('''', 302, [(''Location'', ''https://storage.googleapis.com/kcidb-cache/''
                           @ format_object_name sampled_url @ ''?X-Goog-Signature=s'')])"
    using kcidb_cache_redirect_replies [of demo_request demo_lib "''kcidb-cache''" good_env
        cached_world "''https%3A//example.com/log151.txt''"
        "''https://storage.googleapis.com/kcidb-cache/''
           @ format_object_name sampled_url @ ''?X-Goog-Signature=s''"]
      g decode_demo_query demo_resolver_cached sampled_url_nonempty
    by (simp add: unquote_demo_query)
  show "fst (kcidb_cache_redirect demo_lib ''kcidb-cache'' good_env demo_request empty_world)
     = Inr ('''', 302, [(''Location'', sampled_url)])"
    using kcidb_cache_redirect_replies [of demo_request demo_lib "''kcidb-cache''" good_env
        empty_world "''https%3A//example.com/log151.txt''"]
      g decode_demo_query demo_resolver_absent sampled_url_nonempty
    by (simp add: unquote_demo_query)
qed

subsection \<open>Inputs outside the amended claims, and idempotence\<close>

text \<open>
  A GET request whose query string holds the byte FF gets none of the four replies:
  \<open>decode("ascii")\<close> raises UnicodeDecodeError and the exception leaves the function.
\<close>

theorem kcidb_cache_redirect_counterexample:
  "kcidb_cache_redirect demo_lib ''kcidb-cache'' good_env latin_request empty_world
     = (Inl UnicodeDecodeError, empty_world)"
  by (simp add: kcidb_cache_redirect_def latin_request_def decode_ascii_def)

lemma store_twice_at_most_one:
  "length (filter is_Upload
      (new_events w (snd (store lib c en' u (snd (store lib c en u w)))))) \<le> 1"
proof -
  let ?w1 = "snd (store lib c en u w)"
  let ?w2 = "snd (store lib c en' u ?w1)"
  from store_outcome [of lib c en u w] obtain evs where
    t1: "trace ?w1 = trace w @ evs" and
    o: "(filter is_Upload evs = [] \<and> bucket ?w1 = bucket w)
        \<or> (filter is_Upload evs = [Upload (format_object_name u)]
            \<and> (\<exists>b. bucket ?w1 = (bucket w)(format_object_name u \<mapsto> b)))"
    by blast
  from store_outcome [of lib c en' u ?w1] obtain evs2 where
    t2: "trace ?w2 = trace ?w1 @ evs2" and
    o2: "(filter is_Upload evs2 = [] \<and> bucket ?w2 = bucket ?w1)
        \<or> (filter is_Upload evs2 = [Upload (format_object_name u)]
            \<and> (\<exists>b. bucket ?w2 = (bucket ?w1)(format_object_name u \<mapsto> b)))"
    by blast
  have n: "new_events w ?w2 = evs @ evs2" using t1 t2 by (simp add: new_events_def)
  have n2: "new_events ?w1 ?w2 = evs2" using t2 by simp
  show ?thesis
  proof (cases "filter is_Upload evs = []")
    case True
    with o2 show ?thesis unfolding n by auto
  next
    case False
    with o have "bucket ?w1 (format_object_name u) \<noteq> None" by auto
    from store_existing_quiet [OF this, of lib c en']
    have "filter is_Upload evs2 = []"
      unfolding n2 by (auto simp: filter_empty_conv)
    with o show ?thesis unfolding n by auto
  qed
qed

text \<open>
  Two calls in a row on a URL that the sampling policy excludes write no object at all.
\<close>

theorem store_twice_counterexample:
  "length (filter is_Upload (new_events empty_world
      (snd (store demo_lib demo_client good_env unsampled_url
         (snd (store demo_lib demo_client good_env unsampled_url empty_world)))))) = 0"
  by (simp add: store_unsampled [OF unsampled_url_unsampled] new_events_def)

text \<open>
  Claim C5, as amended. When an object already exists under the URL's object name,
  \<open>store\<close> sends no HEAD, no GET and writes nothing. Two calls of \<open>store\<close> on the
  same URL in a row write at most one object, and when the first call wrote the object the
  second sends no request to the origin and writes nothing, so exactly one object was written.
\<close>

theorem store_idempotent:
  "(bucket w (format_object_name u) \<noteq> None \<longrightarrow>
      bucket (snd (store lib c en u w)) = bucket w
      \<and> filter (\<lambda>e. is_Head e \<or> is_Get e \<or> is_Upload e)
           (new_events w (snd (store lib c en u w))) = [])
   \<and> length (filter is_Upload
        (new_events w (snd (store lib c en' u (snd (store lib c en u w)))))) \<le> 1
   \<and> (length (filter is_Upload (new_events w (snd (store lib c en u w)))) = 1 \<longrightarrow>
        filter (\<lambda>e. is_Head e \<or> is_Get e \<or> is_Upload e)
           (new_events (snd (store lib c en u w))
              (snd (store lib c en' u (snd (store lib c en u w))))) = []
        \<and> length (filter is_Upload
             (new_events w (snd (store lib c en' u (snd (store lib c en u w)))))) = 1)"
  using store_first_write_second_quiet [of w u lib c en en']
    store_twice_at_most_one [of w lib c en' u en]
  by blast

theorem store_idempotent_witness:
  "bucket cached_world (format_object_name sampled_url) \<noteq> None
   \<and> bucket (snd (store demo_lib demo_client good_env sampled_url cached_world))
        = bucket cached_world
   \<and> length (filter is_Upload (new_events empty_world
        (snd (store demo_lib demo_client good_env sampled_url empty_world)))) = 1
   \<and> length (filter is_Upload (new_events empty_world
        (snd (store demo_lib demo_client good_env sampled_url
           (snd (store demo_lib demo_client good_env sampled_url empty_world)))))) = 1"
proof -
  have one: "length (filter is_Upload (new_events empty_world
      (snd (store demo_lib demo_client good_env sampled_url empty_world)))) = 1"
    unfolding store_good_sampled by (simp add: new_events_def empty_world_def)
  have ex: "bucket cached_world (format_object_name sampled_url) \<noteq> None"
    by (simp add: cached_world_def)
  from store_idempotent [of empty_world sampled_url demo_lib demo_client good_env good_env]
    store_idempotent [of cached_world sampled_url demo_lib demo_client good_env good_env] one ex
  show ?thesis by blast
qed

end
